theory Spec2Isabelle
  imports Complex_Main "HOL-Library.AList"
begin

section \<open>JavaScript values read by the earnings job\<close>

text \<open>
  The conversion records of \<^verbatim>\<open>server.js\<close> are whatever \<^verbatim>\<open>res.json()\<close> parsed, so they are
  modelled as JSON values. A parsed object is the list of its own properties, each name
  once. \<open>None\<close> of type \<open>jsval\<close> is JavaScript's \<^verbatim>\<open>undefined\<close>; \<open>None\<close> of type
  \<open>jsnum\<close> is \<^verbatim>\<open>NaN\<close>. Numbers are rationals: the arithmetic of the job is modelled exactly,
  without the rounding of IEEE doubles and without their overflow to \<^verbatim>\<open>Infinity\<close>.
\<close>

datatype json =
  JNull
  | JBool bool
  | JNum rat
  | JStr string
  | JArr "json list"
  | JObj "(string \<times> json) list"

type_synonym jsval = "json option"

type_synonym jsnum = "rat option"

text \<open>
  Three built-ins of the language are parameters of the model, so that every theorem holds
  for whatever they compute: the parsing of a string by \<^verbatim>\<open>Number(s)\<close>, the printing of a
  number by \<^verbatim>\<open>String(n)\<close>, and \<^verbatim>\<open>String.prototype.toLowerCase\<close>.
\<close>

record js_runtime =
  StringToNumber :: "string \<Rightarrow> jsnum"
  NumberToString :: "rat \<Rightarrow> string"
  toLowerCase :: "string \<Rightarrow> string"

fun truthy :: "jsval \<Rightarrow> bool" where
  "truthy None = False"
| "truthy (Some JNull) = False"
| "truthy (Some (JBool b)) = b"
| "truthy (Some (JNum n)) = (n \<noteq> 0)"
| "truthy (Some (JStr s)) = (s \<noteq> [])"
| "truthy (Some (JArr xs)) = True"
| "truthy (Some (JObj fs)) = True"

text \<open>\<^verbatim>\<open>a || b\<close> and \<^verbatim>\<open>a && f(a)\<close>.\<close>

definition js_or :: "jsval \<Rightarrow> jsval \<Rightarrow> jsval" where
  "js_or a b = (if truthy a then a else b)"

definition js_and_then :: "jsval \<Rightarrow> (json \<Rightarrow> jsval) \<Rightarrow> jsval" where
  "js_and_then a f = (case a of None \<Rightarrow> None | Some v \<Rightarrow> if truthy a then f v else a)"

text \<open>
  \<^verbatim>\<open>v.name\<close> on a value that is not \<^verbatim>\<open>null\<close>, for the property names the job reads
  (\<^verbatim>\<open>affiliate\<close>, \<^verbatim>\<open>id\<close>, \<^verbatim>\<open>amount\<close>, \<^verbatim>\<open>currency\<close>, ...): an own property of a parsed
  object, \<^verbatim>\<open>undefined\<close> on anything else. Reading a property of \<^verbatim>\<open>null\<close> throws; the caller
  handles that case.
\<close>

fun get_prop :: "json \<Rightarrow> string \<Rightarrow> jsval" where
  "get_prop (JObj fs) name = map_of fs name"
| "get_prop v name = None"

fun join_comma :: "string list \<Rightarrow> string" where
  "join_comma [] = []"
| "join_comma [s] = s"
| "join_comma (s # t # ss) = s @ '','' @ join_comma (t # ss)"

datatype error =
  ConfigError
  | ValidationError
  | FetchError
  | NetworkError
  | TypeError
  | PersistenceError

fun collect :: "(error + 'a) list \<Rightarrow> error + 'a list" where
  "collect [] = Inr []"
| "collect (x # xs) =
     (case x of
        Inl e \<Rightarrow> Inl e
      | Inr v \<Rightarrow> (case collect xs of Inl e \<Rightarrow> Inl e | Inr vs \<Rightarrow> Inr (v # vs)))"

text \<open>
  \<^verbatim>\<open>String(v)\<close>. An array joins its elements with commas, \<^verbatim>\<open>null\<close> elements printing empty.
  A parsed object prints through the inherited \<^verbatim>\<open>toString\<close>, unless an own property of that
  name hides it: an own property of a parsed object is never a function, the inherited
  \<^verbatim>\<open>valueOf\<close> gives no primitive, and the conversion throws a TypeError.
\<close>

fun to_string :: "js_runtime \<Rightarrow> json \<Rightarrow> error + string" where
  "to_string rt JNull = Inr ''null''"
| "to_string rt (JBool b) = Inr (if b then ''true'' else ''false'')"
| "to_string rt (JNum n) = Inr (NumberToString rt n)"
| "to_string rt (JStr s) = Inr s"
| "to_string rt (JArr xs) =
     (case collect (map (\<lambda>x. if x = JNull then Inr [] else to_string rt x) xs) of
        Inl e \<Rightarrow> Inl e
      | Inr ss \<Rightarrow> Inr (join_comma ss))"
| "to_string rt (JObj fs) =
     (if ''toString'' \<in> fst ` set fs then Inl TypeError else Inr ''[object Object]'')"

text \<open>
  \<^verbatim>\<open>Number(v)\<close>. An array and an object are converted through their string;
  \<^verbatim>\<open>[object Object]\<close> is not a numeric literal and gives \<^verbatim>\<open>NaN\<close>.
\<close>

fun to_number :: "js_runtime \<Rightarrow> jsval \<Rightarrow> error + jsnum" where
  "to_number rt None = Inr None"
| "to_number rt (Some JNull) = Inr (Some 0)"
| "to_number rt (Some (JBool b)) = Inr (Some (if b then 1 else 0))"
| "to_number rt (Some (JNum n)) = Inr (Some n)"
| "to_number rt (Some (JStr s)) = Inr (StringToNumber rt s)"
| "to_number rt (Some (JArr xs)) =
     (case to_string rt (JArr xs) of
        Inl e \<Rightarrow> Inl e
      | Inr s \<Rightarrow> Inr (StringToNumber rt s))"
| "to_number rt (Some (JObj fs)) =
     (case to_string rt (JObj fs) of
        Inl e \<Rightarrow> Inl e
      | Inr s \<Rightarrow> Inr None)"

text \<open>\<^verbatim>\<open>Number(x) || 0\<close>, for \<open>x\<close> already converted: \<^verbatim>\<open>NaN\<close> and \<open>0\<close> both give \<open>0\<close>.\<close>

fun or_zero :: "jsnum \<Rightarrow> rat" where
  "or_zero None = 0"
| "or_zero (Some x) = x"

section \<open>Configuration, errors and the database\<close>

text \<open>
  The module constants \<^verbatim>\<open>TAPFILIATE_API_KEY\<close>, \<^verbatim>\<open>TAPFILIATE_PROGRAM_ID\<close>,
  \<^verbatim>\<open>GLOBAL_COMMISSION_RATE\<close>, \<^verbatim>\<open>STRIPE_FEE_PERCENT\<close> and \<^verbatim>\<open>STRIPE_FEE_FIXED\<close>. The two
  strings may be unset; the three numbers are taken as numbers (an environment value that
  \<^verbatim>\<open>Number(...)\<close> reads as \<^verbatim>\<open>NaN\<close> is outside the model).
\<close>

record config =
  TAPFILIATE_API_KEY :: "string option"
  TAPFILIATE_PROGRAM_ID :: "string option"
  GLOBAL_COMMISSION_RATE :: rat
  STRIPE_FEE_PERCENT :: rat
  STRIPE_FEE_FIXED :: rat

text \<open>
  What \<^verbatim>\<open>affiliateToPartner[...]\<close> can give when it is truthy: the integer \<^verbatim>\<open>id\<close> of a
  partner row, or a member that the object literal \<^verbatim>\<open>{}\<close> inherits from
  \<^verbatim>\<open>Object.prototype\<close>, named by its property name.
\<close>

datatype partner_ref = IntId int | ProtoMember string

record partner_row =
  p_id :: int
  tapfiliate_affiliate_id :: "string option"

text \<open>
  A row of \<^verbatim>\<open>partner_earnings\<close>. The model stores the values the statement passes. What
  the column types and constraints of the store add is not modelled: the scale and range
  of \<^verbatim>\<open>NUMERIC(12, 2)\<close> and \<^verbatim>\<open>NUMERIC(5, 4)\<close>, the length of \<^verbatim>\<open>VARCHAR(10)\<close>, the input of
  \<^verbatim>\<open>DATE\<close> and the foreign key to \<^verbatim>\<open>partners\<close>; the database answers every statement.
  \<^verbatim>\<open>created_at\<close> is left out.
\<close>

record earnings_row =
  e_id :: nat
  partner_id :: int
  period :: string
  currency :: string
  gross_revenue :: rat
  net_revenue :: rat
  commission_rate :: rat
  commission_amount :: rat
  source :: string

record database =
  partners :: "partner_row list"
  partner_earnings :: "earnings_row list"
  partner_earnings_id_seq :: nat

datatype io_event =
  DbEnsureTables
  | DbSelectPartners
  | HttpGetPage nat
  | DbUpsert partner_ref string string

section \<open>upsertPartnerEarnings\<close>

text \<open>The columns of the unique index \<^verbatim>\<open>idx_partner_earnings_partner_period_currency\<close>.\<close>

definition row_key :: "earnings_row \<Rightarrow> int \<times> string \<times> string" where
  "row_key r = (partner_id r, period r, currency r)"

text \<open>
  \<^verbatim>\<open>INSERT ... ON CONFLICT (partner_id, period, currency) DO UPDATE SET ... RETURNING *\<close>:
  a row with the key of the proposed row takes its five \<^verbatim>\<open>EXCLUDED\<close> columns and keeps its
  \<^verbatim>\<open>id\<close>; with no such row the proposed row is appended.
\<close>

definition do_update :: "earnings_row \<Rightarrow> earnings_row \<Rightarrow> earnings_row" where
  "do_update excluded r =
     r\<lparr>gross_revenue := gross_revenue excluded,
       net_revenue := net_revenue excluded,
       commission_rate := commission_rate excluded,
       commission_amount := commission_amount excluded,
       source := source excluded\<rparr>"

definition insert_on_conflict :: "earnings_row \<Rightarrow> earnings_row list \<Rightarrow> earnings_row list" where
  "insert_on_conflict new rows =
     (if row_key new \<in> row_key ` set rows
      then map (\<lambda>r. if row_key r = row_key new then do_update new r else r) rows
      else rows @ [new])"

definition returning :: "earnings_row \<Rightarrow> earnings_row list \<Rightarrow> earnings_row" where
  "returning new rows =
     (case find (\<lambda>r. row_key r = row_key new) rows of
        Some r \<Rightarrow> do_update new r
      | None \<Rightarrow> new)"

record upsert_args =
  partnerId :: partner_ref
  a_period :: string
  a_currency :: string
  grossRevenue :: jsnum
  netRevenue :: jsnum
  commissionRate :: jsnum

text \<open>
  The three numeric arguments are given as \<^verbatim>\<open>Number(...)\<close> made them. The serial \<^verbatim>\<open>id\<close> is
  drawn for every attempt. A \<^verbatim>\<open>partnerId\<close> that is not an integer cannot be stored in the
  \<^verbatim>\<open>INT\<close> column: the query rejects and the function rethrows.
\<close>

definition upsertPartnerEarnings ::
  "database \<Rightarrow> upsert_args \<Rightarrow> io_event list \<times> database \<times> (error + earnings_row)" where
  "upsertPartnerEarnings db args =
     (let rate = or_zero (commissionRate args);
          net = or_zero (netRevenue args);
          gross = or_zero (grossRevenue args);
          commissionAmount = net * rate;
          events = [DbEnsureTables, DbUpsert (partnerId args) (a_period args) (a_currency args)]
      in case partnerId args of
           ProtoMember name \<Rightarrow> (events, db, Inl PersistenceError)
         | IntId pid \<Rightarrow>
             (let new = \<lparr>e_id = partner_earnings_id_seq db,
                         partner_id = pid,
                         period = a_period args,
                         currency = a_currency args,
                         gross_revenue = gross,
                         net_revenue = net,
                         commission_rate = rate,
                         commission_amount = commissionAmount,
                         source = ''manual_test''\<rparr>
              in (events,
                  db\<lparr>partner_earnings := insert_on_conflict new (partner_earnings db),
                     partner_earnings_id_seq := Suc (partner_earnings_id_seq db)\<rparr>,
                  Inr (returning new (partner_earnings db)))))"

section \<open>The parts of syncPartnerEarningsFromTapfiliate\<close>

subsection \<open>Period format\<close>

text \<open>\<^verbatim>\<open>/^\d{4}-\d{2}$/.test(periodYm)\<close>: exactly four digits, a hyphen, two digits.\<close>

definition is_digit :: "char \<Rightarrow> bool" where
  "is_digit c = (c \<in> set ''0123456789'')"

fun period_format :: "string \<Rightarrow> bool" where
  "period_format [y1, y2, y3, y4, h, m1, m2] =
     (is_digit y1 \<and> is_digit y2 \<and> is_digit y3 \<and> is_digit y4 \<and> h = CHR ''-'' \<and>
      is_digit m1 \<and> is_digit m2)"
| "period_format s = False"

subsection \<open>The affiliate map\<close>

text \<open>
  \<^verbatim>\<open>affiliateToPartner\<close> is the object literal \<^verbatim>\<open>{}\<close>: its own properties are an association
  list, and a read that finds no own property goes on to \<^verbatim>\<open>Object.prototype\<close>, whose
  members are all truthy. Assigning a number to \<^verbatim>\<open>__proto__\<close> runs the inherited setter,
  which ignores it, so that assignment adds no own property.
\<close>

definition object_prototype_members :: "string list" where
  "object_prototype_members =
     [''constructor'', ''__defineGetter__'', ''__defineSetter__'', ''hasOwnProperty'',
      ''__lookupGetter__'', ''__lookupSetter__'', ''isPrototypeOf'',
      ''propertyIsEnumerable'', ''toString'', ''valueOf'', ''__proto__'',
      ''toLocaleString'']"

definition assign_affiliate :: "partner_row \<Rightarrow> (string \<times> int) list \<Rightarrow> (string \<times> int) list" where
  "assign_affiliate row m =
     (case tapfiliate_affiliate_id row of
        None \<Rightarrow> m
      | Some a \<Rightarrow>
          if a = [] then m
          else if a = ''__proto__'' then m
          else AList.update a (p_id row) m)"

definition build_affiliateToPartner :: "partner_row list \<Rightarrow> (string \<times> int) list" where
  "build_affiliateToPartner rows =
     fold assign_affiliate (filter (\<lambda>r. tapfiliate_affiliate_id r \<noteq> None) rows) []"

definition lookup_affiliate :: "(string \<times> int) list \<Rightarrow> string \<Rightarrow> partner_ref option" where
  "lookup_affiliate m k =
     (case map_of m k of
        Some pid \<Rightarrow> Some (IntId pid)
      | None \<Rightarrow> if k \<in> set object_prototype_members then Some (ProtoMember k) else None)"

subsection \<open>The pagination loop\<close>

text \<open>
  One request gets one outcome: the promise of \<^verbatim>\<open>fetch\<close> rejects, or it gives a response
  with its \<^verbatim>\<open>ok\<close> flag and the JSON its body parses to (\<open>None\<close> when the body is not JSON).
  The service is a function from the page number to the outcome of that request: the loop
  requests a page at most once, so any sequence of answers is such a function. Every
  request is taken to complete.
\<close>

datatype http_outcome = Rejected | Response bool "json option"

function fetch_pages ::
  "(nat \<Rightarrow> http_outcome) \<Rightarrow> nat \<Rightarrow> json list \<Rightarrow> io_event list \<times> (error + json list)" where
  "fetch_pages svc page allConversions =
     (if page \<le> 5 then
        (case svc page of
           Rejected \<Rightarrow> ([HttpGetPage page], Inl NetworkError)
         | Response ok body \<Rightarrow>
             if \<not> ok then ([HttpGetPage page], Inl FetchError)
             else
               (case (case body of None \<Rightarrow> JArr [] | Some v \<Rightarrow> v) of
                  JArr pageData \<Rightarrow>
                    if pageData = [] then ([HttpGetPage page], Inr allConversions)
                    else if length pageData < 50
                    then ([HttpGetPage page], Inr (allConversions @ pageData))
                    else
                      (case fetch_pages svc (page + 1) (allConversions @ pageData) of
                         (events, r) \<Rightarrow> (HttpGetPage page # events, r))
                | _ \<Rightarrow> ([HttpGetPage page], Inr allConversions)))
      else ([], Inr allConversions))"
  by pat_completeness auto
termination
  by (relation "measure (\<lambda>(svc, page, allConversions). 6 - page)") auto

subsection \<open>Aggregation\<close>

record bucket_entry =
  b_partnerId :: partner_ref
  b_currency :: string
  b_gross :: rat
  b_net :: rat

text \<open>
  The key \<^verbatim>\<open>`${partnerId}:${currency}`\<close> names the pair of its two parts, and the bucket keeps
  its entries in the order their keys were first written, which is the order
  \<^verbatim>\<open>Object.keys(bucket)\<close> lists them in.
\<close>

definition bucket_key :: "bucket_entry \<Rightarrow> partner_ref \<times> string" where
  "bucket_key e = (b_partnerId e, b_currency e)"

definition bucket_add ::
  "partner_ref \<Rightarrow> string \<Rightarrow> rat \<Rightarrow> rat \<Rightarrow> bucket_entry list \<Rightarrow> bucket_entry list" where
  "bucket_add pid cur gross net bucket =
     (let bucket' =
            (if (pid, cur) \<in> bucket_key ` set bucket then bucket
             else bucket @ [\<lparr>b_partnerId = pid, b_currency = cur, b_gross = 0, b_net = 0\<rparr>])
      in map (\<lambda>e. if bucket_key e = (pid, cur)
                   then e\<lparr>b_gross := b_gross e + gross, b_net := b_net e + net\<rparr>
                   else e) bucket')"

definition estimate_net :: "config \<Rightarrow> rat \<Rightarrow> rat" where
  "estimate_net cfg gross =
     (let fee = gross * STRIPE_FEE_PERCENT cfg + STRIPE_FEE_FIXED cfg
      in max (gross - fee) 0)"

definition conv_affiliateId :: "json \<Rightarrow> jsval" where
  "conv_affiliateId conv =
     (let affiliate =
            js_or (get_prop conv ''affiliate'')
              (js_or (get_prop conv ''affiliate_program'')
                 (js_or (get_prop conv ''affiliate_program_affiliate'') (Some JNull)))
      in js_and_then affiliate
           (\<lambda>a. js_or (get_prop a ''id'')
                   (js_or (get_prop a ''affiliate'') (get_prop a ''affiliate_id''))))"

definition conv_gross :: "js_runtime \<Rightarrow> json \<Rightarrow> error + jsnum" where
  "conv_gross rt conv =
     to_number rt
       (js_or (get_prop conv ''amount'')
          (js_or (get_prop conv ''commission_amount'') (Some (JNum 0))))"

text \<open>Calling \<^verbatim>\<open>.toLowerCase()\<close> on a value that is not a string throws a TypeError.\<close>

definition conv_currency :: "js_runtime \<Rightarrow> json \<Rightarrow> error + string" where
  "conv_currency rt conv =
     (case js_or (get_prop conv ''currency'')
             (js_or (js_and_then (get_prop conv ''commission'') (\<lambda>c. get_prop c ''currency''))
                (Some (JStr ''usd''))) of
        Some (JStr s) \<Rightarrow> Inr (toLowerCase rt s)
      | _ \<Rightarrow> Inl TypeError)"

text \<open>
  One pass of the loop body over a conversion; \<open>Inr bucket\<close> unchanged is \<^verbatim>\<open>continue\<close>.
  An array element that is \<^verbatim>\<open>null\<close> throws at \<^verbatim>\<open>conv.affiliate\<close>, and the conversions
  \<^verbatim>\<open>String(affiliateId)\<close> and \<^verbatim>\<open>Number(...)\<close> throw where \<open>to_string\<close> does.
\<close>

definition add_conversion ::
  "js_runtime \<Rightarrow> config \<Rightarrow> (string \<times> int) list \<Rightarrow> bucket_entry list \<Rightarrow> json \<Rightarrow>
   error + bucket_entry list" where
  "add_conversion rt cfg affiliateToPartner bucket conv =
     (if conv = JNull then Inl TypeError
      else
        (case conv_affiliateId conv of
           None \<Rightarrow> Inr bucket
         | Some affiliateId \<Rightarrow>
             if \<not> truthy (Some affiliateId) then Inr bucket
             else
               (case to_string rt affiliateId of
                  Inl e \<Rightarrow> Inl e
                | Inr name \<Rightarrow>
                    (case lookup_affiliate affiliateToPartner name of
                       None \<Rightarrow> Inr bucket
                     | Some pid \<Rightarrow>
                         if pid = IntId 0 then Inr bucket
                         else
                           (case conv_gross rt conv of
                              Inl e \<Rightarrow> Inl e
                            | Inr None \<Rightarrow> Inr bucket
                            | Inr (Some gross) \<Rightarrow>
                                if gross \<le> 0 then Inr bucket
                                else
                                  (case conv_currency rt conv of
                                     Inl e \<Rightarrow> Inl e
                                   | Inr cur \<Rightarrow>
                                       Inr (bucket_add pid cur gross
                                              (estimate_net cfg gross) bucket)))))))"

fun aggregate ::
  "js_runtime \<Rightarrow> config \<Rightarrow> (string \<times> int) list \<Rightarrow> bucket_entry list \<Rightarrow> json list \<Rightarrow>
   error + bucket_entry list" where
  "aggregate rt cfg m bucket [] = Inr bucket"
| "aggregate rt cfg m bucket (conv # convs) =
     (case add_conversion rt cfg m bucket conv of
        Inl e \<Rightarrow> Inl e
      | Inr bucket' \<Rightarrow> aggregate rt cfg m bucket' convs)"

subsection \<open>Writing the buckets\<close>

record total =
  t_partner_id :: partner_ref
  t_currency :: string
  t_gross :: rat
  t_net :: rat
  t_commission_rate :: rat
  t_commission_amount :: rat

record summary =
  s_period :: string
  s_totals :: "total list"
  s_note :: "string option"

fun upsert_buckets ::
  "database \<Rightarrow> string \<Rightarrow> rat \<Rightarrow> bucket_entry list \<Rightarrow>
   io_event list \<times> database \<times> (error + total list)" where
  "upsert_buckets db periodDate rate [] = ([], db, Inr [])"
| "upsert_buckets db periodDate rate (b # bs) =
     (case upsertPartnerEarnings db
             \<lparr>partnerId = b_partnerId b, a_period = periodDate, a_currency = b_currency b,
              grossRevenue = Some (b_gross b), netRevenue = Some (b_net b),
              commissionRate = Some rate\<rparr> of
        (events, db', Inl e) \<Rightarrow> (events, db', Inl e)
      | (events, db', Inr row) \<Rightarrow>
          (case upsert_buckets db' periodDate rate bs of
             (events', db'', r) \<Rightarrow>
               (events @ events', db'',
                case r of
                  Inl e \<Rightarrow> Inl e
                | Inr totals \<Rightarrow>
                    Inr (\<lparr>t_partner_id = b_partnerId b, t_currency = b_currency b,
                          t_gross = b_gross b, t_net = b_net b, t_commission_rate = rate,
                          t_commission_amount = commission_amount row\<rparr> # totals))))"

section \<open>syncPartnerEarningsFromTapfiliate\<close>

definition configured :: "config \<Rightarrow> bool" where
  "configured cfg =
     (truthy (map_option JStr (TAPFILIATE_API_KEY cfg)) \<and>
      truthy (map_option JStr (TAPFILIATE_PROGRAM_ID cfg)))"

text \<open>
  The job returns the I/O it issued, in order, the database it leaves, and its result.
  The UTC month boundaries only parametrise the request URL and are not modelled.
\<close>

definition syncPartnerEarningsFromTapfiliate ::
  "js_runtime \<Rightarrow> config \<Rightarrow> (nat \<Rightarrow> http_outcome) \<Rightarrow> database \<Rightarrow> string \<Rightarrow>
   io_event list \<times> database \<times> (error + summary)" where
  "syncPartnerEarningsFromTapfiliate rt cfg svc db periodYm =
     (if \<not> configured cfg then ([], db, Inl ConfigError)
      else if \<not> period_format periodYm then ([], db, Inl ValidationError)
      else
        (let io0 = [DbEnsureTables, DbSelectPartners];
             affiliateToPartner = build_affiliateToPartner (partners db)
         in if affiliateToPartner = []
            then (io0, db,
                  Inr \<lparr>s_period = periodYm, s_totals = [],
                       s_note = Some ''No partners with tapfiliate_affiliate_id found.''\<rparr>)
            else
              (case fetch_pages svc 1 [] of
                 (io1, Inl e) \<Rightarrow> (io0 @ io1, db, Inl e)
               | (io1, Inr allConversions) \<Rightarrow>
                   if allConversions = []
                   then (io0 @ io1, db,
                         Inr \<lparr>s_period = periodYm, s_totals = [],
                              s_note = Some ''No conversions found for this period.''\<rparr>)
                   else
                     (case aggregate rt cfg affiliateToPartner [] allConversions of
                        Inl e \<Rightarrow> (io0 @ io1, db, Inl e)
                      | Inr bucket \<Rightarrow>
                          (case upsert_buckets db (periodYm @ ''-01'')
                                  (GLOBAL_COMMISSION_RATE cfg) bucket of
                             (io2, db', Inl e) \<Rightarrow> (io0 @ io1 @ io2, db', Inl e)
                           | (io2, db', Inr totals) \<Rightarrow>
                               (io0 @ io1 @ io2, db',
                                Inr \<lparr>s_period = periodYm, s_totals = totals,
                                     s_note = None\<rparr>))))))"

section \<open>The spec's formula and the inputs of its scenarios\<close>


text \<open>
  Concrete inputs for the scenarios: a runtime that lower-cases ASCII letters (no scenario
  parses a string as a number or prints a number), the default constants of
  \<^verbatim>\<open>server.js\<close>, one partner linked to the affiliate \<^verbatim>\<open>A1\<close>, and services that answer page
  1 with a single conversion.
\<close>

definition ascii_lower :: "char \<Rightarrow> char" where
  "ascii_lower c =
     (case map_of (zip ''ABCDEFGHIJKLMNOPQRSTUVWXYZ'' ''abcdefghijklmnopqrstuvwxyz'') c of
        Some l \<Rightarrow> l
      | None \<Rightarrow> c)"

definition example_runtime :: js_runtime where
  "example_runtime =
     \<lparr>StringToNumber = (\<lambda>s. None), NumberToString = (\<lambda>n. []),
      toLowerCase = map ascii_lower\<rparr>"

definition example_config :: config where
  "example_config =
     \<lparr>TAPFILIATE_API_KEY = Some ''key'', TAPFILIATE_PROGRAM_ID = Some ''program'',
      GLOBAL_COMMISSION_RATE = 35 / 100, STRIPE_FEE_PERCENT = 29 / 1000,
      STRIPE_FEE_FIXED = 30 / 100\<rparr>"

definition unconfigured :: config where
  "unconfigured = example_config\<lparr>TAPFILIATE_API_KEY := None\<rparr>"

definition example_db :: database where
  "example_db =
     \<lparr>partners = [\<lparr>p_id = 7, tapfiliate_affiliate_id = Some ''A1''\<rparr>],
      partner_earnings = [], partner_earnings_id_seq = 1\<rparr>"

definition conversion :: "string \<Rightarrow> rat \<Rightarrow> json" where
  "conversion affiliate amount =
     JObj [(''affiliate'', JObj [(''id'', JStr affiliate)]), (''amount'', JNum amount),
           (''currency'', JStr ''USD'')]"

definition single_page :: "json list \<Rightarrow> nat \<Rightarrow> http_outcome" where
  "single_page convs page =
     (if page = 1 then Response True (Some (JArr convs)) else Response True (Some (JArr [])))"

definition failing_page :: "nat \<Rightarrow> nat \<Rightarrow> http_outcome" where
  "failing_page bad page =
     (if page = bad then Response False None
      else Response True (Some (JArr (replicate 50 (conversion ''A1'' 100)))))"

definition example_args :: upsert_args where
  "example_args =
     \<lparr>partnerId = IntId 7, a_period = ''2025-01-01'', a_currency = ''usd'',
      grossRevenue = Some 100, netRevenue = Some (484 / 5), commissionRate = Some (35 / 100)\<rparr>"

definition example_row :: earnings_row where
  "example_row =
     \<lparr>e_id = 1, partner_id = 7, period = ''2025-01-01'', currency = ''usd'',
      gross_revenue = 100, net_revenue = 484 / 5, commission_rate = 7 / 20,
      commission_amount = 847 / 25, source = ''manual_test''\<rparr>"

definition example_summary :: summary where
  "example_summary =
     \<lparr>s_period = ''2025-01'',
      s_totals =
        [\<lparr>t_partner_id = IntId 7, t_currency = ''usd'', t_gross = 100, t_net = 484 / 5,
          t_commission_rate = 7 / 20, t_commission_amount = 847 / 25\<rparr>],
      s_note = None\<rparr>"

text \<open>A service whose second page answers with a JSON object instead of an array.\<close>

definition broken_page :: "nat \<Rightarrow> http_outcome" where
  "broken_page page =
     (if page = 1 then Response True (Some (JArr (replicate 50 (conversion ''A1'' 100))))
      else if page = 2 then Response True (Some (JObj [(''error'', JStr ''oops'')]))
      else Response False None)"

text \<open>A service whose first page has a successful response with a body that is not JSON.\<close>

definition first_page_not_json :: "nat \<Rightarrow> http_outcome" where
  "first_page_not_json page = Response True None"



text \<open>The row that \<open>upsertPartnerEarnings\<close> proposes for an integer partner id, named for the proofs.\<close>

definition proposed_row :: "database \<Rightarrow> int \<Rightarrow> upsert_args \<Rightarrow> earnings_row" where
  "proposed_row db pid args =
     \<lparr>e_id = partner_earnings_id_seq db, partner_id = pid, period = a_period args,
      currency = a_currency args, gross_revenue = or_zero (grossRevenue args),
      net_revenue = or_zero (netRevenue args),
      commission_rate = or_zero (commissionRate args),
      commission_amount = or_zero (netRevenue args) * or_zero (commissionRate args),
      source = ''manual_test''\<rparr>"

text \<open>
  Predicates for the proof that a second run changes nothing: the arguments a bucket is
  written with, the buckets whose partner id is an integer, and a bucket being settled in
  the ledger, which is to say that its key is present and every row of that key already
  holds the values the bucket would write.
\<close>

definition bucket_args :: "string \<Rightarrow> rat \<Rightarrow> bucket_entry \<Rightarrow> upsert_args" where
  "bucket_args periodDate rate b =
     \<lparr>partnerId = b_partnerId b, a_period = periodDate, a_currency = b_currency b,
      grossRevenue = Some (b_gross b), netRevenue = Some (b_net b),
      commissionRate = Some rate\<rparr>"



section \<open>Facts about the upsert and the pagination loop\<close>

lemma returning_fields:
  "gross_revenue (returning new rows) = gross_revenue new"
  "net_revenue (returning new rows) = net_revenue new"
  "commission_rate (returning new rows) = commission_rate new"
  "commission_amount (returning new rows) = commission_amount new"
  "source (returning new rows) = source new"
  "row_key (returning new rows) = row_key new"
  by (auto simp: returning_def do_update_def row_key_def split: option.splits dest: find_Some_iff[THEN iffD1])

lemma returning_in_set: "returning new rows \<in> set (insert_on_conflict new rows)"
proof (cases "find (\<lambda>r. row_key r = row_key new) rows")
  case None
  then have "row_key new \<notin> row_key ` set rows"
    by (auto simp: find_None_iff)
  with None show ?thesis
    by (simp add: returning_def insert_on_conflict_def)
next
  case (Some r)
  then have r: "r \<in> set rows" "row_key r = row_key new"
    by (auto simp: find_Some_iff)
  then have "row_key new \<in> row_key ` set rows"
    by (metis imageI)
  with Some r show ?thesis
    by (auto simp: returning_def insert_on_conflict_def intro!: image_eqI[where x = r])
qed

lemma insert_on_conflict_cases:
  "x \<in> set (insert_on_conflict new rows) \<Longrightarrow>
   x \<in> set rows \<or> x = new \<or> (\<exists>r \<in> set rows. row_key r = row_key new \<and> x = do_update new r)"
  by (auto simp: insert_on_conflict_def split: if_splits)

lemma proposed_row_fields [simp]:
  "partner_id (proposed_row db pid args) = pid"
  "period (proposed_row db pid args) = a_period args"
  "currency (proposed_row db pid args) = a_currency args"
  "gross_revenue (proposed_row db pid args) = or_zero (grossRevenue args)"
  "net_revenue (proposed_row db pid args) = or_zero (netRevenue args)"
  "commission_rate (proposed_row db pid args) = or_zero (commissionRate args)"
  "commission_amount (proposed_row db pid args) =
     or_zero (netRevenue args) * or_zero (commissionRate args)"
  "source (proposed_row db pid args) = ''manual_test''"
  "row_key (proposed_row db pid args) = (pid, a_period args, a_currency args)"
  by (simp_all add: proposed_row_def row_key_def)

lemma upsert_IntId:
  "partnerId args = IntId pid \<Longrightarrow>
   upsertPartnerEarnings db args =
     ([DbEnsureTables, DbUpsert (IntId pid) (a_period args) (a_currency args)],
      db\<lparr>partner_earnings := insert_on_conflict (proposed_row db pid args) (partner_earnings db),
         partner_earnings_id_seq := Suc (partner_earnings_id_seq db)\<rparr>,
      Inr (returning (proposed_row db pid args) (partner_earnings db)))"
  by (simp add: upsertPartnerEarnings_def proposed_row_def Let_def)

lemma upsert_ProtoMember:
  "partnerId args = ProtoMember name \<Longrightarrow>
   upsertPartnerEarnings db args =
     ([DbEnsureTables, DbUpsert (ProtoMember name) (a_period args) (a_currency args)],
      db, Inl PersistenceError)"
  by (simp add: upsertPartnerEarnings_def Let_def)

lemma upsert_Inr:
  assumes "upsertPartnerEarnings db args = (events, db', Inr row)"
  shows "\<exists>pid. partnerId args = IntId pid \<and>
           db' = db\<lparr>partner_earnings :=
                       insert_on_conflict (proposed_row db pid args) (partner_earnings db),
                     partner_earnings_id_seq := Suc (partner_earnings_id_seq db)\<rparr> \<and>
           row = returning (proposed_row db pid args) (partner_earnings db) \<and>
           events = [DbEnsureTables, DbUpsert (IntId pid) (a_period args) (a_currency args)]"
proof (cases "partnerId args")
  case (IntId pid)
  with assms upsert_IntId[OF IntId, of db] show ?thesis by simp
next
  case (ProtoMember name)
  with assms upsert_ProtoMember[OF ProtoMember, of db] show ?thesis by simp
qed

lemma upsert_Inl:
  assumes "upsertPartnerEarnings db args = (events, db', Inl e)"
  shows "db' = db \<and> e = PersistenceError \<and> (\<exists>name. partnerId args = ProtoMember name) \<and>
         events = [DbEnsureTables, DbUpsert (partnerId args) (a_period args) (a_currency args)]"
proof (cases "partnerId args")
  case (IntId pid)
  with assms upsert_IntId[OF IntId, of db] show ?thesis by simp
next
  case (ProtoMember name)
  with assms upsert_ProtoMember[OF ProtoMember, of db] show ?thesis by simp
qed

lemma row_key_do_update [simp]: "row_key (do_update new r) = row_key r"
  by (simp add: do_update_def row_key_def)

lemma insert_on_conflict_key_rows:
  assumes "r \<in> set (insert_on_conflict new rows)" and "row_key r = row_key new"
  shows "gross_revenue r = gross_revenue new \<and> net_revenue r = net_revenue new \<and>
         commission_rate r = commission_rate new \<and>
         commission_amount r = commission_amount new \<and> source r = source new"
proof (cases "row_key new \<in> row_key ` set rows")
  case True
  with assms(1) obtain r0 where r0: "r0 \<in> set rows"
      "r = (if row_key r0 = row_key new then do_update new r0 else r0)"
    by (auto simp: insert_on_conflict_def)
  with assms(2) have "r = do_update new r0"
    by (cases "row_key r0 = row_key new") auto
  then show ?thesis
    by (simp add: do_update_def)
next
  case False
  with assms(1) have "r \<in> set rows \<or> r = new"
    by (auto simp: insert_on_conflict_def)
  moreover have "r \<notin> set rows"
    using False assms(2) by (metis imageI)
  ultimately show ?thesis
    by simp
qed

declare fetch_pages.simps [simp del]

lemma fetch_pages_last_page:
  assumes "page \<le> 5" "svc page = Response True body"
    and "body = None \<or> (\<exists>v. body = Some v \<and> (\<forall>xs. v \<noteq> JArr xs))"
  shows "fetch_pages svc page acc = ([HttpGetPage page], Inr acc)"
  using assms
  by (subst fetch_pages.simps) (auto split: json.splits)

lemma fetch_pages_short_page:
  assumes "page \<le> 5" "svc page = Response True (Some (JArr xs))" "length xs < 50"
  shows "fetch_pages svc page acc = ([HttpGetPage page], Inr (acc @ xs))"
  using assms
  by (subst fetch_pages.simps) auto

lemma fetch_pages_events:
  "\<exists>n \<le> 6 - page. fst (fetch_pages svc page acc) = map HttpGetPage [page ..< page + n]"
proof (induction svc page acc rule: fetch_pages.induct)
  case (1 svc page acc)
  show ?case
  proof (cases "page \<le> 5")
    case False
    then show ?thesis
      by (subst fetch_pages.simps) simp
  next
    case le: True
    have one: "[HttpGetPage page] = map HttpGetPage [page ..< page + 1]"
      by simp
    show ?thesis
    proof (cases "\<exists>xs. svc page = Response True (Some (JArr xs)) \<and> 50 \<le> length xs")
      case False
      then have "fst (fetch_pages svc page acc) = [HttpGetPage page]"
        using le
        by (subst fetch_pages.simps) (auto split: http_outcome.splits option.splits json.splits)
      with one le show ?thesis
        by (intro exI[of _ 1]) simp
    next
      case True
      then obtain xs where xs: "svc page = Response True (Some (JArr xs))" "50 \<le> length xs"
        by blast
      then have ne: "xs \<noteq> []" "\<not> length xs < 50"
        by auto
      have "\<exists>n\<le>6 - (page + 1).
         fst (fetch_pages svc (page + 1) (acc @ xs)) = map HttpGetPage [page + 1 ..< page + 1 + n]"
        by (rule "1.IH"[OF le xs(1), of xs]) (use ne in simp_all)
      then obtain n where n: "n \<le> 6 - (page + 1)"
        "fst (fetch_pages svc (page + 1) (acc @ xs)) = map HttpGetPage [page + 1 ..< page + 1 + n]"
        by auto
      have "fst (fetch_pages svc page acc) =
            HttpGetPage page # fst (fetch_pages svc (page + 1) (acc @ xs))"
        using le xs ne
        by (subst fetch_pages.simps) (simp split: prod.splits)
      also have "\<dots> = map HttpGetPage [page ..< page + Suc n]"
        using n(2) by (simp add: upt_rec[of page])
      finally show ?thesis
        using n(1) le by (intro exI[of _ "Suc n"]) simp
    qed
  qed
qed


lemma bucket_add_neq: "0 < gross \<Longrightarrow> bucket_add pid cur gross net bucket \<noteq> bucket"
proof (cases "(pid, cur) \<in> bucket_key ` set bucket")
  case False
  then have "length (bucket_add pid cur gross net bucket) = Suc (length bucket)"
    by (simp add: bucket_add_def)
  then show ?thesis by auto
next
  case True
  assume pos: "0 < gross"
  from True obtain e where e: "e \<in> set bucket" "bucket_key e = (pid, cur)"
    by auto
  show ?thesis
  proof
    assume "bucket_add pid cur gross net bucket = bucket"
    with True have "map (\<lambda>e. if bucket_key e = (pid, cur)
                   then e\<lparr>b_gross := b_gross e + gross, b_net := b_net e + net\<rparr>
                   else e) bucket = map id bucket"
      by (simp add: bucket_add_def)
    then have "\<forall>x\<in>set bucket. (if bucket_key x = (pid, cur)
                   then x\<lparr>b_gross := b_gross x + gross, b_net := b_net x + net\<rparr>
                   else x) = id x"
      by (simp only: map_eq_conv)
    then have "e\<lparr>b_gross := b_gross e + gross, b_net := b_net e + net\<rparr> = e"
      using e by auto
    then have "b_gross (e\<lparr>b_gross := b_gross e + gross, b_net := b_net e + net\<rparr>) = b_gross e"
      by simp
    with pos show False by simp
  qed
qed



section \<open>The fee estimate\<close>



section \<open>The commission\<close>


lemma example_upsert:
  "upsertPartnerEarnings example_db example_args =
     ([DbEnsureTables, DbUpsert (IntId 7) ''2025-01-01'' ''usd''],
      example_db\<lparr>partner_earnings := [example_row], partner_earnings_id_seq := 2\<rparr>,
      Inr example_row)"
  by code_simp


section \<open>The source tag\<close>

lemma upsert_written_rows:
  assumes "upsertPartnerEarnings db args = (events, db', r)"
  shows "\<forall>x\<in>set (partner_earnings db'). x \<in> set (partner_earnings db) \<or> source x = ''manual_test''"
proof (cases r)
  case (Inl e)
  with assms upsert_Inl[of db args events db' e] show ?thesis by simp
next
  case (Inr row)
  with assms have "upsertPartnerEarnings db args = (events, db', Inr row)"
    by simp
  from upsert_Inr[OF this] obtain pid where
    "partner_earnings db' = insert_on_conflict (proposed_row db pid args) (partner_earnings db)"
    by auto
  then obtain new where new: "source new = ''manual_test''"
      "partner_earnings db' = insert_on_conflict new (partner_earnings db)"
    using proposed_row_fields(8) by blast
  show ?thesis
  proof
    fix x assume "x \<in> set (partner_earnings db')"
    with new(2) have "x \<in> set (insert_on_conflict new (partner_earnings db))"
      by simp
    from insert_on_conflict_cases[OF this] new(1)
    show "x \<in> set (partner_earnings db) \<or> source x = ''manual_test''"
      by (auto simp: do_update_def)
  qed
qed

lemma upsert_buckets_written_rows:
  "upsert_buckets db periodDate rate bs = (events, db', r) \<Longrightarrow>
   \<forall>x\<in>set (partner_earnings db'). x \<in> set (partner_earnings db) \<or> source x = ''manual_test''"
proof (induction bs arbitrary: db events db' r)
  case Nil
  then show ?case by simp
next
  case (Cons b bs)
  let ?args = "\<lparr>partnerId = b_partnerId b, a_period = periodDate, a_currency = b_currency b,
              grossRevenue = Some (b_gross b), netRevenue = Some (b_net b),
              commissionRate = Some rate\<rparr>"
  obtain ev1 db1 r1 where u: "upsertPartnerEarnings db ?args = (ev1, db1, r1)"
    by (cases "upsertPartnerEarnings db ?args") auto
  note w1 = upsert_written_rows[OF u]
  show ?case
  proof (cases r1)
    case (Inl e)
    with Cons.prems u have "db' = db1" by simp
    with w1 show ?thesis by simp
  next
    case (Inr row)
    obtain ev2 db2 r2 where rest: "upsert_buckets db1 periodDate rate bs = (ev2, db2, r2)"
      by (cases "upsert_buckets db1 periodDate rate bs") auto
    with Cons.prems u Inr have "db' = db2" by simp
    with Cons.IH[OF rest] w1 show ?thesis by blast
  qed
qed

lemma sync_cases:
  assumes "syncPartnerEarningsFromTapfiliate rt cfg svc db periodYm = (io, db', res)"
  shows "db' = db \<or>
         (\<exists>bucket io2 r. configured cfg \<and> period_format periodYm \<and>
            snd (fetch_pages svc 1 []) \<noteq> Inl FetchError \<and>
            upsert_buckets db (periodYm @ ''-01'') (GLOBAL_COMMISSION_RATE cfg) bucket = (io2, db', r))"
  using assms
  by (auto simp: syncPartnerEarningsFromTapfiliate_def Let_def
           split: if_splits prod.splits sum.splits)

text \<open>
  C10. Every row that \<open>upsertPartnerEarnings\<close> writes has the source tag \<^verbatim>\<open>manual_test\<close>:
  after an upsert every row of the ledger is a row that was there before or carries the tag,
  and the row returned carries it; the same holds of the ledger after a run of the
  Tapfiliate earnings sync.
\<close>
theorem every_written_row_is_tagged_manual_test:
  "(upsertPartnerEarnings db args = (events, db', r) \<longrightarrow>
      (\<forall>x\<in>set (partner_earnings db').
          x \<in> set (partner_earnings db) \<or> source x = ''manual_test'') \<and>
      (\<forall>row. r = Inr row \<longrightarrow> source row = ''manual_test'' \<and> row \<in> set (partner_earnings db'))) \<and>
   (syncPartnerEarningsFromTapfiliate rt cfg svc db periodYm = (io, db'', res) \<longrightarrow>
      (\<forall>x\<in>set (partner_earnings db'').
          x \<in> set (partner_earnings db) \<or> source x = ''manual_test''))"
proof (intro conjI impI allI)
  assume u: "upsertPartnerEarnings db args = (events, db', r)"
  then show "\<forall>x\<in>set (partner_earnings db').
          x \<in> set (partner_earnings db) \<or> source x = ''manual_test''"
    by (rule upsert_written_rows)
  fix row assume "r = Inr row"
  with u show "source row = ''manual_test''" "row \<in> set (partner_earnings db')"
    by (auto dest!: upsert_Inr simp: returning_fields returning_in_set)
next
  assume "syncPartnerEarningsFromTapfiliate rt cfg svc db periodYm = (io, db'', res)"
  from sync_cases[OF this]
  show "\<forall>x\<in>set (partner_earnings db'').
          x \<in> set (partner_earnings db) \<or> source x = ''manual_test''"
    by (auto dest: upsert_buckets_written_rows)
qed


lemma example_sync:
  "syncPartnerEarningsFromTapfiliate example_runtime example_config
     (single_page [conversion ''A1'' 100]) example_db ''2025-01'' =
   ([DbEnsureTables, DbSelectPartners, HttpGetPage 1, DbEnsureTables,
     DbUpsert (IntId 7) ''2025-01-01'' ''usd''],
    example_db\<lparr>partner_earnings := [example_row], partner_earnings_id_seq := 2\<rparr>,
    Inr example_summary)"
  by code_simp

theorem every_written_row_is_tagged_manual_test_witness:
  "upsertPartnerEarnings example_db example_args =
     ([DbEnsureTables, DbUpsert (IntId 7) ''2025-01-01'' ''usd''],
      example_db\<lparr>partner_earnings := [example_row], partner_earnings_id_seq := 2\<rparr>,
      Inr example_row) \<and>
   syncPartnerEarningsFromTapfiliate example_runtime example_config
     (single_page [conversion ''A1'' 100]) example_db ''2025-01'' =
   ([DbEnsureTables, DbSelectPartners, HttpGetPage 1, DbEnsureTables,
     DbUpsert (IntId 7) ''2025-01-01'' ''usd''],
    example_db\<lparr>partner_earnings := [example_row], partner_earnings_id_seq := 2\<rparr>,
    Inr example_summary) \<and>
   partner_earnings example_db = [] \<and>
   source example_row = ''manual_test''"
  using every_written_row_is_tagged_manual_test[of example_db example_args
      "[DbEnsureTables, DbUpsert (IntId 7) ''2025-01-01'' ''usd'']"
      "example_db\<lparr>partner_earnings := [example_row], partner_earnings_id_seq := 2\<rparr>"
      "Inr example_row" example_runtime example_config "single_page [conversion ''A1'' 100]"
      "''2025-01''"
      "[DbEnsureTables, DbSelectPartners, HttpGetPage 1, DbEnsureTables,
        DbUpsert (IntId 7) ''2025-01-01'' ''usd'']"
      "example_db\<lparr>partner_earnings := [example_row], partner_earnings_id_seq := 2\<rparr>"
      "Inr example_summary"]
  by (simp add: example_upsert example_sync) (simp add: example_db_def)

section \<open>The end of the pagination\<close>

lemma fetch_pages_full_page:
  assumes "page \<le> 5" "svc page = Response True (Some (JArr xs))" "50 \<le> length xs"
  shows "fetch_pages svc page acc =
           (HttpGetPage page # fst (fetch_pages svc (page + 1) (acc @ xs)),
            snd (fetch_pages svc (page + 1) (acc @ xs)))"
  using assms
  by (subst fetch_pages.simps) (auto split: prod.splits)

lemma fetch_pages_full_prefix:
  assumes "\<forall>q. a \<le> q \<and> q < p \<longrightarrow>
             svc q = Response True (Some (JArr (pages q))) \<and> 50 \<le> length (pages q)"
    and "a \<le> p" "p \<le> 5"
  shows "fetch_pages svc a acc =
           (map HttpGetPage [a ..< p] @ fst (fetch_pages svc p (acc @ concat (map pages [a ..< p]))),
            snd (fetch_pages svc p (acc @ concat (map pages [a ..< p]))))"
  using assms
proof (induction "p - a" arbitrary: a acc)
  case 0
  then show ?case by simp
next
  case (Suc n)
  then have lt: "a < p" and a5: "a \<le> 5"
    by auto
  with Suc.prems have pg: "svc a = Response True (Some (JArr (pages a)))" "50 \<le> length (pages a)"
    by auto
  have ih: "fetch_pages svc (a + 1) (acc @ pages a) =
           (map HttpGetPage [a + 1 ..< p] @
              fst (fetch_pages svc p ((acc @ pages a) @ concat (map pages [a + 1 ..< p]))),
            snd (fetch_pages svc p ((acc @ pages a) @ concat (map pages [a + 1 ..< p]))))"
    using Suc.hyps(2) Suc.prems lt
    by (intro Suc.hyps(1)) auto
  have upt: "[a ..< p] = a # [a + 1 ..< p]"
    using lt by (simp add: upt_rec)
  show ?case
    using fetch_pages_full_page[where svc = svc and page = a and xs = "pages a" and acc = acc]
      a5 pg ih upt
    by simp
qed

lemma bad_page_ends_pagination:
  assumes "1 \<le> p" "p \<le> 5"
    and "\<forall>q. 1 \<le> q \<and> q < p \<longrightarrow>
           svc q = Response True (Some (JArr (pages q))) \<and> 50 \<le> length (pages q)"
    and "svc p = Response True body"
    and "body = None \<or> (\<exists>v. body = Some v \<and> (\<forall>xs. v \<noteq> JArr xs))"
  shows "fetch_pages svc 1 [] =
           (map HttpGetPage [1 ..< Suc p], Inr (concat (map pages [1 ..< p])))"
proof -
  have last: "fetch_pages svc p (concat (map pages [1 ..< p])) =
                ([HttpGetPage p], Inr (concat (map pages [1 ..< p])))"
    using assms(2,4,5) by (rule fetch_pages_last_page)
  have "[1 ..< Suc p] = [1 ..< p] @ [p]"
    using assms(1) by simp
  with fetch_pages_full_prefix[OF assms(3) assms(1) assms(2), of "[]"] last
  show ?thesis
    by simp
qed

text \<open>
  C7. Whatever the service answers, the pagination loop returns (\<open>fetch_pages\<close> is total),
  having requested pages \<open>1, 2, ..., n\<close> in order for some \<open>n \<le> 5\<close>; and a page with fewer
  than 50 records is the last one requested.
\<close>
theorem pagination_stops_within_five_pages:
  "(\<exists>n\<le>5. fst (fetch_pages svc 1 []) = map HttpGetPage [1 ..< Suc n]) \<and>
   (\<forall>page acc xs.
      page \<le> 5 \<and> svc page = Response True (Some (JArr xs)) \<and> length xs < 50 \<longrightarrow>
      fetch_pages svc page acc = ([HttpGetPage page], Inr (acc @ xs)))"
proof (intro conjI allI impI)
  from fetch_pages_events[of 1 svc "[]"]
  show "\<exists>n\<le>5. fst (fetch_pages svc 1 []) = map HttpGetPage [1 ..< Suc n]"
    by simp
next
  fix page acc xs
  assume "page \<le> 5 \<and> svc page = Response True (Some (JArr xs)) \<and> length xs < 50"
  then show "fetch_pages svc page acc = ([HttpGetPage page], Inr (acc @ xs))"
    by (simp add: fetch_pages_short_page)
qed


lemma full_pages_run:
  "fst (fetch_pages (failing_page 0) 1 []) =
     [HttpGetPage 1, HttpGetPage 2, HttpGetPage 3, HttpGetPage 4, HttpGetPage 5]"
  by code_simp

theorem pagination_stops_within_five_pages_witness:
  "fst (fetch_pages (failing_page 0) 1 []) =
     [HttpGetPage 1, HttpGetPage 2, HttpGetPage 3, HttpGetPage 4, HttpGetPage 5] \<and>
   (\<exists>n\<le>5. fst (fetch_pages (failing_page 0) 1 []) = map HttpGetPage [1 ..< Suc n]) \<and>
   fetch_pages (single_page [conversion ''A1'' 100]) 1 [] =
     ([HttpGetPage 1], Inr [conversion ''A1'' 100])"
proof -
  have short: "1 \<le> (5::nat) \<and>
      single_page [conversion ''A1'' 100] 1 = Response True (Some (JArr [conversion ''A1'' 100])) \<and>
      length [conversion ''A1'' 100] < 50"
    by (simp add: single_page_def)
  from pagination_stops_within_five_pages[of "single_page [conversion ''A1'' 100]",
      THEN conjunct2, rule_format, OF short, of "[]"]
    pagination_stops_within_five_pages[of "failing_page 0", THEN conjunct1]
    full_pages_run
  show ?thesis
    by simp
qed

section \<open>HTTP failure\<close>

lemma fetch_pages_not_ok:
  "HttpGetPage p \<in> set (fst (fetch_pages svc page acc)) \<Longrightarrow> svc p = Response False body \<Longrightarrow>
   snd (fetch_pages svc page acc) = Inl FetchError"
proof (induction svc page acc rule: fetch_pages.induct)
  case (1 svc page acc)
  show ?case
  proof (cases "page \<le> 5")
    case False
    with "1.prems" show ?thesis
      by (subst (asm) fetch_pages.simps) simp
  next
    case le: True
    show ?thesis
    proof (cases "\<exists>xs. svc page = Response True (Some (JArr xs)) \<and> 50 \<le> length xs")
      case False
      then have ev: "fst (fetch_pages svc page acc) = [HttpGetPage page]"
        using le
        by (subst fetch_pages.simps) (auto split: http_outcome.splits option.splits json.splits)
      with "1.prems" have "p = page" by simp
      with "1.prems"(2) le show ?thesis
        by (subst fetch_pages.simps) simp
    next
      case True
      then obtain xs where xs: "svc page = Response True (Some (JArr xs))" "50 \<le> length xs"
        by blast
      then have ne: "xs \<noteq> []" "\<not> length xs < 50"
        by auto
      note step = fetch_pages_full_page[where svc = svc and page = page and xs = xs and acc = acc,
          OF le xs]
      from "1.prems" xs have "p \<noteq> page" by auto
      with "1.prems"(1) step
      have mem: "HttpGetPage p \<in> set (fst (fetch_pages svc (page + 1) (acc @ xs)))"
        by simp
      have "snd (fetch_pages svc (page + 1) (acc @ xs)) = Inl FetchError"
        by (rule "1.IH"[OF le xs(1), of xs]) (use ne mem "1.prems"(2) in simp_all)
      with step show ?thesis by simp
    qed
  qed
qed

lemma upsert_buckets_events:
  "upsert_buckets db periodDate rate bs = (events, db', r) \<Longrightarrow>
   \<forall>e\<in>set events. e = DbEnsureTables \<or> (\<exists>pid per cur. e = DbUpsert pid per cur)"
proof (induction bs arbitrary: db events db' r)
  case Nil
  then show ?case by simp
next
  case (Cons b bs)
  let ?args = "\<lparr>partnerId = b_partnerId b, a_period = periodDate, a_currency = b_currency b,
              grossRevenue = Some (b_gross b), netRevenue = Some (b_net b),
              commissionRate = Some rate\<rparr>"
  obtain ev1 db1 r1 where u: "upsertPartnerEarnings db ?args = (ev1, db1, r1)"
    by (cases "upsertPartnerEarnings db ?args") auto
  have ev1: "ev1 = [DbEnsureTables, DbUpsert (b_partnerId b) periodDate (b_currency b)]"
    using u upsert_Inl[of db ?args ev1 db1] upsert_Inr[of db ?args ev1 db1]
    by (cases r1) auto
  show ?case
  proof (cases r1)
    case (Inl e)
    with Cons.prems u have "events = ev1" by simp
    with ev1 show ?thesis by simp
  next
    case (Inr row)
    obtain ev2 db2 r2 where rest: "upsert_buckets db1 periodDate rate bs = (ev2, db2, r2)"
      by (cases "upsert_buckets db1 periodDate rate bs") auto
    with Cons.prems u Inr have "events = ev1 @ ev2" by simp
    with Cons.IH[OF rest] ev1 show ?thesis by auto
  qed
qed

text \<open>
  C2. If a page that the job requests has an HTTP response that is not successful, the job
  ends with the fetch error, leaves the database as it was, and issues no upsert.
\<close>
theorem http_failure_aborts_without_ledger_writes:
  assumes "syncPartnerEarningsFromTapfiliate rt cfg svc db periodYm = (io, db', res)"
    and "HttpGetPage p \<in> set io"
    and "svc p = Response False body"
  shows "res = Inl FetchError \<and> db' = db \<and> (\<forall>pid per cur. DbUpsert pid per cur \<notin> set io)"
proof -
  obtain io1 r1 where f: "fetch_pages svc 1 [] = (io1, r1)"
    by (cases "fetch_pages svc 1 []") auto
  have started: "configured cfg" "period_format periodYm" "build_affiliateToPartner (partners db) \<noteq> []"
    using assms(1,2)
    by (auto simp: syncPartnerEarningsFromTapfiliate_def Let_def split: if_splits)
  have "HttpGetPage p \<in> set io1"
  proof (rule ccontr)
    assume no: "HttpGetPage p \<notin> set io1"
    show False
    proof (cases r1)
      case (Inl e)
      with assms(1,2) f started no show False
        by (auto simp: syncPartnerEarningsFromTapfiliate_def Let_def)
    next
      case (Inr convs)
      with assms(1,2) f started no show False
        by (auto simp: syncPartnerEarningsFromTapfiliate_def Let_def
                 split: if_splits sum.splits prod.splits dest!: upsert_buckets_events)
    qed
  qed
  with fetch_pages_not_ok[of p svc 1 "[]" body] assms(3) f
  have r1: "r1 = Inl FetchError" and noup: "\<forall>e\<in>set io1. \<exists>q. e = HttpGetPage q"
    using fetch_pages_events[of 1 svc "[]"] by auto
  from assms(1) f started r1
  have "res = Inl FetchError" "db' = db" "io = [DbEnsureTables, DbSelectPartners] @ io1"
    by (auto simp: syncPartnerEarningsFromTapfiliate_def Let_def)
  with noup show ?thesis
    by auto
qed

lemma failing_sync:
  "syncPartnerEarningsFromTapfiliate example_runtime example_config (failing_page 3) example_db
     ''2025-01'' =
   ([DbEnsureTables, DbSelectPartners, HttpGetPage 1, HttpGetPage 2, HttpGetPage 3],
    example_db, Inl FetchError)"
  by code_simp

theorem http_failure_aborts_without_ledger_writes_witness:
  "syncPartnerEarningsFromTapfiliate example_runtime example_config (failing_page 3) example_db
     ''2025-01'' =
   ([DbEnsureTables, DbSelectPartners, HttpGetPage 1, HttpGetPage 2, HttpGetPage 3],
    example_db, Inl FetchError) \<and>
   failing_page 3 3 = Response False None \<and>
   (\<forall>pid per cur. DbUpsert pid per cur \<notin>
      set [DbEnsureTables, DbSelectPartners, HttpGetPage 1, HttpGetPage 2, HttpGetPage 3])"
proof -
  have bad: "failing_page 3 3 = Response False None"
    by (simp add: failing_page_def)
  from http_failure_aborts_without_ledger_writes[OF failing_sync _ bad] failing_sync bad
  show ?thesis
    by simp
qed

section \<open>Period validation\<close>

text \<open>
  C8, amended. A period string that does not match \<^verbatim>\<open>/^\d{4}-\d{2}$/\<close> is rejected before any
  I/O, with the database untouched: with the validation error when the Tapfiliate key and
  program id are configured, and with the configuration error, whose check comes first
  (lines 458-460), when they are not.
\<close>
theorem malformed_period_rejected_before_io:
  assumes "\<not> period_format periodYm"
  shows "syncPartnerEarningsFromTapfiliate rt cfg svc db periodYm =
           ([], db, Inl (if configured cfg then ValidationError else ConfigError))"
  using assms
  by (simp add: syncPartnerEarningsFromTapfiliate_def)

theorem malformed_period_rejected_before_io_witness:
  "\<not> period_format ''2025/01'' \<and>
   syncPartnerEarningsFromTapfiliate example_runtime example_config
     (single_page [conversion ''A1'' 100]) example_db ''2025/01'' =
   ([], example_db, Inl ValidationError)"
proof -
  have bad: "\<not> period_format ''2025/01''"
    by simp
  have "configured example_config"
    by (simp add: configured_def example_config_def)
  with malformed_period_rejected_before_io[OF bad, of example_runtime example_config
      "single_page [conversion ''A1'' 100]" example_db] bad
  show ?thesis
    by simp
qed

text \<open>
  The claim as stated fails without the Tapfiliate configuration: the malformed period
  \<^verbatim>\<open>2025/01\<close> is then rejected with the configuration error, not the validation error.
\<close>

theorem malformed_period_unconfigured_counterexample:
  "\<not> period_format ''2025/01'' \<and>
   syncPartnerEarningsFromTapfiliate example_runtime unconfigured
     (single_page [conversion ''A1'' 100]) example_db ''2025/01'' =
   ([], example_db, Inl ConfigError) \<and>
   syncPartnerEarningsFromTapfiliate example_runtime unconfigured
     (single_page [conversion ''A1'' 100]) example_db ''2025/01'' \<noteq>
   ([], example_db, Inl ValidationError)"
  by (simp add: syncPartnerEarningsFromTapfiliate_def configured_def unconfigured_def
        example_config_def)

section \<open>The scenario of the specification\<close>

lemma conversion_A1_usd:
  assumes "toLowerCase rt ''USD'' = ''usd''" and "P \<noteq> 0"
  shows "add_conversion rt cfg [(''A1'', P)] [] (conversion ''A1'' g) =
           (if g \<le> 0 then Inr []
            else Inr [\<lparr>b_partnerId = IntId P, b_currency = ''usd'', b_gross = g,
                       b_net = estimate_net cfg g\<rparr>])"
  using assms
  by (simp add: add_conversion_def conversion_def conv_affiliateId_def conv_gross_def
        conv_currency_def js_or_def js_and_then_def lookup_affiliate_def bucket_add_def
        bucket_key_def)

text \<open>
  C4. Period \<^verbatim>\<open>2025-01\<close>, exactly one partner \<open>P\<close>, linked to the affiliate \<^verbatim>\<open>A1\<close>, the
  single conversion \<^verbatim>\<open>{affiliate: {id: "A1"}, amount: 100, currency: "USD"}\<close>, fee percent
  0.029, fixed fee 0.30 and commission rate 0.35: the job issues exactly one upsert, for the
  key \<open>(P, 2025-01-01, usd)\<close>, and the ledger row of that key has gross 100, net 96.8 and
  commission amount 33.88; on an empty ledger it is the only row.
\<close>
theorem scenario_one_conversion_one_row:
  assumes "configured cfg"
    and "GLOBAL_COMMISSION_RATE cfg = 35 / 100"
    and "STRIPE_FEE_PERCENT cfg = 29 / 1000"
    and "STRIPE_FEE_FIXED cfg = 30 / 100"
    and "toLowerCase rt ''USD'' = ''usd''"
    and "partners db = [\<lparr>p_id = P, tapfiliate_affiliate_id = Some ''A1''\<rparr>]"
    and "P \<noteq> 0"
    and "svc 1 = Response True (Some (JArr [conversion ''A1'' 100]))"
    and "row = \<lparr>e_id = partner_earnings_id_seq db, partner_id = P, period = ''2025-01-01'',
                currency = ''usd'', gross_revenue = 100, net_revenue = 968 / 10,
                commission_rate = 35 / 100, commission_amount = 3388 / 100,
                source = ''manual_test''\<rparr>"
  shows "syncPartnerEarningsFromTapfiliate rt cfg svc db ''2025-01'' =
           ([DbEnsureTables, DbSelectPartners, HttpGetPage 1, DbEnsureTables,
             DbUpsert (IntId P) ''2025-01-01'' ''usd''],
            db\<lparr>partner_earnings := insert_on_conflict row (partner_earnings db),
               partner_earnings_id_seq := Suc (partner_earnings_id_seq db)\<rparr>,
            Inr \<lparr>s_period = ''2025-01'',
                 s_totals = [\<lparr>t_partner_id = IntId P, t_currency = ''usd'', t_gross = 100,
                              t_net = 968 / 10, t_commission_rate = 35 / 100,
                              t_commission_amount = 3388 / 100\<rparr>],
                 s_note = None\<rparr>) \<and>
         (partner_earnings db = [] \<longrightarrow> insert_on_conflict row (partner_earnings db) = [row]) \<and>
         (\<exists>r\<in>set (insert_on_conflict row (partner_earnings db)).
            row_key r = (P, ''2025-01-01'', ''usd'')) \<and>
         (\<forall>r\<in>set (insert_on_conflict row (partner_earnings db)).
            row_key r = (P, ''2025-01-01'', ''usd'') \<longrightarrow>
            gross_revenue r = 100 \<and> net_revenue r = 968 / 10 \<and>
            commission_amount r = 3388 / 100)"
proof (intro conjI)
  have fmt: "period_format ''2025-01''"
    by (simp add: is_digit_def)
  have m: "build_affiliateToPartner (partners db) = [(''A1'', P)]"
    using assms(6) by (simp add: build_affiliateToPartner_def assign_affiliate_def)
  have pages: "fetch_pages svc 1 [] = ([HttpGetPage 1], Inr [conversion ''A1'' 100])"
    using fetch_pages_short_page[where svc = svc and page = 1 and acc = "[]", OF _ assms(8)]
    by simp
  have net: "estimate_net cfg 100 = 484 / 5"
    using assms(3,4) by (simp add: estimate_net_def)
  have agg: "aggregate rt cfg [(''A1'', P)] [] [conversion ''A1'' 100] =
               Inr [\<lparr>b_partnerId = IntId P, b_currency = ''usd'', b_gross = 100,
                      b_net = 484 / 5\<rparr>]"
    using conversion_A1_usd[OF assms(5,7), of cfg 100] net by simp
  have prow: "proposed_row db P
                \<lparr>partnerId = IntId P, a_period = ''2025-01-01'', a_currency = ''usd'',
                 grossRevenue = Some 100, netRevenue = Some (484 / 5),
                 commissionRate = Some (35 / 100)\<rparr> = row"
    using assms(9) by (simp add: proposed_row_def)
  have ups: "upsert_buckets db ''2025-01-01'' (GLOBAL_COMMISSION_RATE cfg)
               [\<lparr>b_partnerId = IntId P, b_currency = ''usd'', b_gross = 100, b_net = 484 / 5\<rparr>] =
             ([DbEnsureTables, DbUpsert (IntId P) ''2025-01-01'' ''usd''],
              db\<lparr>partner_earnings := insert_on_conflict row (partner_earnings db),
                 partner_earnings_id_seq := Suc (partner_earnings_id_seq db)\<rparr>,
              Inr [\<lparr>t_partner_id = IntId P, t_currency = ''usd'', t_gross = 100,
                     t_net = 484 / 5, t_commission_rate = 35 / 100,
                     t_commission_amount = 847 / 25\<rparr>])"
    using prow assms(9)
    by (simp add: upsert_IntId returning_fields assms(2))
  show "syncPartnerEarningsFromTapfiliate rt cfg svc db ''2025-01'' =
           ([DbEnsureTables, DbSelectPartners, HttpGetPage 1, DbEnsureTables,
             DbUpsert (IntId P) ''2025-01-01'' ''usd''],
            db\<lparr>partner_earnings := insert_on_conflict row (partner_earnings db),
               partner_earnings_id_seq := Suc (partner_earnings_id_seq db)\<rparr>,
            Inr \<lparr>s_period = ''2025-01'',
                 s_totals = [\<lparr>t_partner_id = IntId P, t_currency = ''usd'', t_gross = 100,
                              t_net = 968 / 10, t_commission_rate = 35 / 100,
                              t_commission_amount = 3388 / 100\<rparr>],
                 s_note = None\<rparr>)"
    by (simp add: syncPartnerEarningsFromTapfiliate_def m pages agg ups assms(1) fmt Let_def
          del: One_nat_def period_format.simps aggregate.simps upsert_buckets.simps)
  have key: "row_key row = (P, ''2025-01-01'', ''usd'')"
    using assms(9) by (simp add: row_key_def)
  show "partner_earnings db = [] \<longrightarrow> insert_on_conflict row (partner_earnings db) = [row]"
    by (simp add: insert_on_conflict_def)
  show "\<exists>r\<in>set (insert_on_conflict row (partner_earnings db)).
            row_key r = (P, ''2025-01-01'', ''usd'')"
    using returning_in_set[of row "partner_earnings db"] returning_fields(6)[of row "partner_earnings db"] key
    by auto
  show "\<forall>r\<in>set (insert_on_conflict row (partner_earnings db)).
            row_key r = (P, ''2025-01-01'', ''usd'') \<longrightarrow>
            gross_revenue r = 100 \<and> net_revenue r = 968 / 10 \<and>
            commission_amount r = 3388 / 100"
    using insert_on_conflict_key_rows[of _ row "partner_earnings db"] key assms(9)
    by auto
qed


theorem scenario_one_conversion_one_row_witness:
  "syncPartnerEarningsFromTapfiliate example_runtime example_config
     (single_page [conversion ''A1'' 100]) example_db ''2025-01'' =
   ([DbEnsureTables, DbSelectPartners, HttpGetPage 1, DbEnsureTables,
     DbUpsert (IntId 7) ''2025-01-01'' ''usd''],
    example_db\<lparr>partner_earnings := [example_row], partner_earnings_id_seq := 2\<rparr>,
    Inr example_summary) \<and>
   row_key example_row = (7, ''2025-01-01'', ''usd'') \<and>
   gross_revenue example_row = 100 \<and> net_revenue example_row = 968 / 10 \<and>
   commission_amount example_row = 3388 / 100"
proof -
  have c: "configured example_config" "GLOBAL_COMMISSION_RATE example_config = 35 / 100"
    "STRIPE_FEE_PERCENT example_config = 29 / 1000" "STRIPE_FEE_FIXED example_config = 30 / 100"
    by (simp_all add: configured_def example_config_def)
  have l: "toLowerCase example_runtime ''USD'' = ''usd''"
    by (simp add: example_runtime_def ascii_lower_def)
  have p: "partners example_db = [\<lparr>p_id = 7, tapfiliate_affiliate_id = Some ''A1''\<rparr>]"
    "(7::int) \<noteq> 0"
    by (simp_all add: example_db_def)
  have s: "single_page [conversion ''A1'' 100] 1 =
             Response True (Some (JArr [conversion ''A1'' 100]))"
    by (simp add: single_page_def)
  have r: "example_row =
      \<lparr>e_id = partner_earnings_id_seq example_db, partner_id = 7, period = ''2025-01-01'',
       currency = ''usd'', gross_revenue = 100, net_revenue = 968 / 10,
       commission_rate = 35 / 100, commission_amount = 3388 / 100,
       source = ''manual_test''\<rparr>"
    by (simp add: example_row_def example_db_def)
  have e: "partner_earnings example_db = []" "Suc (partner_earnings_id_seq example_db) = 2"
    by (simp_all add: example_db_def)
  from scenario_one_conversion_one_row[where cfg = example_config and rt = example_runtime
      and db = example_db and P = 7 and svc = "single_page [conversion ''A1'' 100]"
      and row = example_row, OF c l p s r]
  show ?thesis
    by (simp add: e example_summary_def row_key_def) (simp add: example_row_def)
qed

section \<open>Malformed records\<close>

text \<open>
  C3, at a failing input. The claim is that a conversion whose affiliate identifier maps to
  no known partner adds to no bucket and never aborts the job. For the identifier
  \<^verbatim>\<open>constructor\<close>, which no partner is linked to, the read \<^verbatim>\<open>affiliateToPartner[...]\<close> finds the
  inherited \<^verbatim>\<open>Object.prototype.constructor\<close>, which is truthy: the conversion is aggregated
  into a bucket, and the upsert of that bucket fails and aborts the job.
\<close>
theorem unlinked_affiliate_named_constructor_is_aggregated:
  "map_of (build_affiliateToPartner (partners example_db)) ''constructor'' = None \<and>
   aggregate example_runtime example_config (build_affiliateToPartner (partners example_db)) []
     [conversion ''constructor'' 100] =
   Inr [\<lparr>b_partnerId = ProtoMember ''constructor'', b_currency = ''usd'', b_gross = 100,
          b_net = 484 / 5\<rparr>] \<and>
   syncPartnerEarningsFromTapfiliate example_runtime example_config
     (single_page [conversion ''constructor'' 100]) example_db ''2025-01'' =
   ([DbEnsureTables, DbSelectPartners, HttpGetPage 1, DbEnsureTables,
     DbUpsert (ProtoMember ''constructor'') ''2025-01-01'' ''usd''],
    example_db, Inl PersistenceError)"
  by code_simp

text \<open>
  What does hold: a conversion, not \<^verbatim>\<open>null\<close>, leaves the bucket as it is and raises nothing
  when its affiliate identifier is missing, or when the identifier prints to a name that
  \<open>lookup_affiliate\<close> does not resolve (no own property and no inherited one, or the id
  \<open>0\<close>), or when its amount converts to \<^verbatim>\<open>NaN\<close> or to a number that is not positive.
\<close>

lemma lookup_affiliate_unlinked:
  "map_of m name = None \<Longrightarrow> name \<notin> set object_prototype_members \<Longrightarrow>
   lookup_affiliate m name = None"
  by (simp add: lookup_affiliate_def)

lemma malformed_conversion_is_skipped:
  assumes "conv \<noteq> JNull"
    and "\<not> truthy (conv_affiliateId conv) \<or>
         (\<exists>a name. conv_affiliateId conv = Some a \<and> to_string rt a = Inr name \<and>
            (lookup_affiliate m name = None \<or> lookup_affiliate m name = Some (IntId 0) \<or>
             conv_gross rt conv = Inr None \<or>
             (\<exists>g. conv_gross rt conv = Inr (Some g) \<and> g \<le> 0)))"
  shows "add_conversion rt cfg m bucket conv = Inr bucket"
  using assms
  by (auto simp: add_conversion_def split: option.splits sum.splits)

section \<open>Idempotence of the job\<close>







lemma upsert_buckets_ProtoMember:
  "b_partnerId b = ProtoMember name \<Longrightarrow>
   upsert_buckets db periodDate rate (b # bs) =
     ([DbEnsureTables, DbUpsert (ProtoMember name) periodDate (b_currency b)], db,
      Inl PersistenceError)"
  by (simp add: upsert_ProtoMember)

lemma upsert_buckets_IntId:
  "b_partnerId b = IntId pid \<Longrightarrow>
   upsert_buckets db periodDate rate (b # bs) =
     (case upsert_buckets
             (db\<lparr>partner_earnings :=
                   insert_on_conflict (proposed_row db pid (bucket_args periodDate rate b))
                     (partner_earnings db),
                 partner_earnings_id_seq := Suc (partner_earnings_id_seq db)\<rparr>)
             periodDate rate bs of
        (events', db'', r) \<Rightarrow>
          ([DbEnsureTables, DbUpsert (IntId pid) periodDate (b_currency b)] @ events', db'',
           case r of
             Inl e \<Rightarrow> Inl e
           | Inr totals \<Rightarrow>
               Inr (\<lparr>t_partner_id = IntId pid, t_currency = b_currency b, t_gross = b_gross b,
                     t_net = b_net b, t_commission_rate = rate,
                     t_commission_amount = b_net b * rate\<rparr> # totals)))"
  by (simp add: upsert_IntId returning_fields bucket_args_def split: prod.splits sum.splits)



























section \<open>A page that is not a JSON array\<close>

lemma collect_Inl: "collect xs = Inl e \<Longrightarrow> Inl e \<in> set xs"
  by (induction xs) (auto split: sum.splits)

lemma to_string_error: "to_string rt v = Inl e \<Longrightarrow> e = TypeError"
proof (induction rt v rule: to_string.induct)
  case (5 rt xs)
  from "5.prems" have "collect (map (\<lambda>x. if x = JNull then Inr [] else to_string rt x) xs) = Inl e"
    by (simp split: sum.splits)
  from collect_Inl[OF this] obtain x where "x \<in> set xs" "x \<noteq> JNull" "to_string rt x = Inl e"
    by (auto split: if_splits)
  then show ?case
    using "5.IH" by blast
qed (auto split: if_splits)

lemma to_number_error: "to_number rt v = Inl e \<Longrightarrow> e = TypeError"
  by (induction rt v rule: to_number.induct)
     (auto split: sum.splits if_splits dest: to_string_error simp del: to_string.simps)

lemma add_conversion_error: "add_conversion rt cfg m bucket conv = Inl e \<Longrightarrow> e = TypeError"
  by (auto simp: add_conversion_def conv_gross_def conv_currency_def
           split: if_splits option.splits sum.splits json.splits
           dest: to_string_error to_number_error)

lemma aggregate_error: "aggregate rt cfg m bucket convs = Inl e \<Longrightarrow> e = TypeError"
  by (induction convs arbitrary: bucket) (auto split: sum.splits dest: add_conversion_error)

lemma upsert_buckets_error:
  "upsert_buckets db periodDate rate bs = (io, db', Inl e) \<Longrightarrow> e = PersistenceError"
proof (induction bs arbitrary: db io db')
  case Nil
  then show ?case by simp
next
  case (Cons c cs)
  show ?case
  proof (cases "b_partnerId c")
    case (ProtoMember name)
    with Cons.prems show ?thesis
      by (simp add: upsert_buckets_ProtoMember del: upsert_buckets.simps)
  next
    case (IntId pid)
    let ?db = "db\<lparr>partner_earnings :=
                   insert_on_conflict (proposed_row db pid (bucket_args periodDate rate c))
                     (partner_earnings db),
                 partner_earnings_id_seq := Suc (partner_earnings_id_seq db)\<rparr>"
    obtain io' db'' r where rest: "upsert_buckets ?db periodDate rate cs = (io', db'', r)"
      by (cases "upsert_buckets ?db periodDate rate cs") auto
    with Cons.prems upsert_buckets_IntId[OF IntId, of db periodDate rate cs]
    have "r = Inl e"
      by (cases r) auto
    with rest Cons.IH show ?thesis
      by blast
  qed
qed

text \<open>
  C9. When pages \<open>1\<close> to \<open>p - 1\<close> are full and page \<open>p\<close> has a successful response whose
  body is not JSON or is not a JSON array, the loop requests pages \<open>1\<close> to \<open>p\<close> and ends
  normally, handing on exactly the conversions of the earlier pages, and the job raises
  neither the fetch error nor a network error. If \<open>p\<close> is greater than 1, the job goes on
  to aggregate exactly the conversions of pages \<open>1\<close> to \<open>p - 1\<close> and to write their buckets.
  If \<open>p\<close> is 1, no conversion was collected and the job does not aggregate: it stops
  after the request with empty totals and the note \<^verbatim>\<open>No conversions found for this period.\<close>,
  leaving the database as it was.
\<close>
theorem bad_page_ends_pagination_and_job_goes_on:
  assumes "configured cfg" and "period_format periodYm"
    and "build_affiliateToPartner (partners db) \<noteq> []"
    and "1 \<le> p" and "p \<le> 5"
    and "\<forall>q. 1 \<le> q \<and> q < p \<longrightarrow>
           svc q = Response True (Some (JArr (pages q))) \<and> 50 \<le> length (pages q)"
    and "svc p = Response True body"
    and "body = None \<or> (\<exists>v. body = Some v \<and> (\<forall>xs. v \<noteq> JArr xs))"
  shows "fetch_pages svc 1 [] =
           (map HttpGetPage [1 ..< Suc p], Inr (concat (map pages [1 ..< p]))) \<and>
         syncPartnerEarningsFromTapfiliate rt cfg svc db periodYm =
           (if p = 1
            then ([DbEnsureTables, DbSelectPartners, HttpGetPage 1], db,
                  Inr \<lparr>s_period = periodYm, s_totals = [],
                       s_note = Some ''No conversions found for this period.''\<rparr>)
            else
              (case aggregate rt cfg (build_affiliateToPartner (partners db)) []
                      (concat (map pages [1 ..< p])) of
                 Inl e \<Rightarrow>
                   ([DbEnsureTables, DbSelectPartners] @ map HttpGetPage [1 ..< Suc p], db, Inl e)
               | Inr bucket \<Rightarrow>
                   (case upsert_buckets db (periodYm @ ''-01'') (GLOBAL_COMMISSION_RATE cfg)
                           bucket of
                      (io2, db', r) \<Rightarrow>
                        ([DbEnsureTables, DbSelectPartners] @ map HttpGetPage [1 ..< Suc p] @ io2,
                         db',
                         case r of
                           Inl e \<Rightarrow> Inl e
                         | Inr totals \<Rightarrow>
                             Inr \<lparr>s_period = periodYm, s_totals = totals,
                                  s_note = None\<rparr>)))) \<and>
         snd (snd (syncPartnerEarningsFromTapfiliate rt cfg svc db periodYm)) \<noteq> Inl FetchError \<and>
         snd (snd (syncPartnerEarningsFromTapfiliate rt cfg svc db periodYm)) \<noteq> Inl NetworkError"
proof -
  let ?convs = "concat (map pages [1 ..< p])"
  let ?m = "build_affiliateToPartner (partners db)"
  have f: "fetch_pages svc 1 [] = (map HttpGetPage [1 ..< Suc p], Inr ?convs)"
    using assms(4-8) by (rule bad_page_ends_pagination)
  have empty: "?convs = [] \<longleftrightarrow> p = 1"
  proof
    assume "p = 1"
    then show "?convs = []" by simp
  next
    assume e: "?convs = []"
    show "p = 1"
    proof (rule ccontr)
      assume "p \<noteq> 1"
      with assms(4) have "1 < p" by simp
      then have "pages 1 \<in> set (map pages [1 ..< p])"
        by simp
      with e have "pages 1 = []"
        by (simp add: concat_eq_Nil_conv del: set_map)
      moreover from assms(6) \<open>1 < p\<close> have "50 \<le> length (pages 1)"
        by simp
      ultimately show False by simp
    qed
  qed
  have job: "syncPartnerEarningsFromTapfiliate rt cfg svc db periodYm =
           (if p = 1
            then ([DbEnsureTables, DbSelectPartners, HttpGetPage 1], db,
                  Inr \<lparr>s_period = periodYm, s_totals = [],
                       s_note = Some ''No conversions found for this period.''\<rparr>)
            else
              (case aggregate rt cfg ?m [] ?convs of
                 Inl e \<Rightarrow>
                   ([DbEnsureTables, DbSelectPartners] @ map HttpGetPage [1 ..< Suc p], db, Inl e)
               | Inr bucket \<Rightarrow>
                   (case upsert_buckets db (periodYm @ ''-01'') (GLOBAL_COMMISSION_RATE cfg)
                           bucket of
                      (io2, db', r) \<Rightarrow>
                        ([DbEnsureTables, DbSelectPartners] @ map HttpGetPage [1 ..< Suc p] @ io2,
                         db',
                         case r of
                           Inl e \<Rightarrow> Inl e
                         | Inr totals \<Rightarrow>
                             Inr \<lparr>s_period = periodYm, s_totals = totals,
                                  s_note = None\<rparr>))))"
  proof (cases "p = 1")
    case True
    then have "fetch_pages svc 1 [] = ([HttpGetPage 1], Inr [])"
      using f by (simp add: upt_rec)
    with True assms(1-3) show ?thesis
      by (simp add: syncPartnerEarningsFromTapfiliate_def Let_def del: One_nat_def)
  next
    case False
    with empty have "?convs \<noteq> []" by simp
    with False assms(1-3) f show ?thesis
      by (auto simp: syncPartnerEarningsFromTapfiliate_def Let_def
               split: sum.splits prod.splits simp del: One_nat_def upt_Suc)
  qed
  have "snd (snd (syncPartnerEarningsFromTapfiliate rt cfg svc db periodYm)) \<noteq> Inl FetchError"
    "snd (snd (syncPartnerEarningsFromTapfiliate rt cfg svc db periodYm)) \<noteq> Inl NetworkError"
    unfolding job
    by (auto split: sum.splits prod.splits dest: aggregate_error upsert_buckets_error)
  with f job show ?thesis
    by simp
qed

lemma broken_page_aggregate:
  "aggregate example_runtime example_config (build_affiliateToPartner (partners example_db)) []
     (replicate 50 (conversion ''A1'' 100)) =
   Inr [\<lparr>b_partnerId = IntId 7, b_currency = ''usd'', b_gross = 5000, b_net = 4840\<rparr>]"
  by code_simp

lemma broken_page_upsert:
  "upsert_buckets example_db ''2025-01-01'' (GLOBAL_COMMISSION_RATE example_config)
     [\<lparr>b_partnerId = IntId 7, b_currency = ''usd'', b_gross = 5000, b_net = 4840\<rparr>] =
   ([DbEnsureTables, DbUpsert (IntId 7) ''2025-01-01'' ''usd''],
    example_db\<lparr>partner_earnings :=
        [\<lparr>e_id = 1, partner_id = 7, period = ''2025-01-01'', currency = ''usd'',
          gross_revenue = 5000, net_revenue = 4840, commission_rate = 7 / 20,
          commission_amount = 1694, source = ''manual_test''\<rparr>],
      partner_earnings_id_seq := 2\<rparr>,
    Inr [\<lparr>t_partner_id = IntId 7, t_currency = ''usd'', t_gross = 5000, t_net = 4840,
          t_commission_rate = 7 / 20, t_commission_amount = 1694\<rparr>])"
  by code_simp

theorem bad_page_ends_pagination_and_job_goes_on_witness:
  "broken_page 1 = Response True (Some (JArr (replicate 50 (conversion ''A1'' 100)))) \<and>
   broken_page 2 = Response True (Some (JObj [(''error'', JStr ''oops'')])) \<and>
   fetch_pages broken_page 1 [] =
     ([HttpGetPage 1, HttpGetPage 2], Inr (replicate 50 (conversion ''A1'' 100))) \<and>
   syncPartnerEarningsFromTapfiliate example_runtime example_config broken_page example_db
     ''2025-01'' =
   ([DbEnsureTables, DbSelectPartners, HttpGetPage 1, HttpGetPage 2, DbEnsureTables,
     DbUpsert (IntId 7) ''2025-01-01'' ''usd''],
    example_db\<lparr>partner_earnings :=
        [\<lparr>e_id = 1, partner_id = 7, period = ''2025-01-01'', currency = ''usd'',
          gross_revenue = 5000, net_revenue = 4840, commission_rate = 7 / 20,
          commission_amount = 1694, source = ''manual_test''\<rparr>],
      partner_earnings_id_seq := 2\<rparr>,
    Inr \<lparr>s_period = ''2025-01'',
         s_totals =
           [\<lparr>t_partner_id = IntId 7, t_currency = ''usd'', t_gross = 5000, t_net = 4840,
             t_commission_rate = 7 / 20, t_commission_amount = 1694\<rparr>],
         s_note = None\<rparr>)"
proof -
  let ?pages = "\<lambda>q::nat. replicate 50 (conversion ''A1'' 100)"
  have cfg: "configured example_config"
    by (simp add: configured_def example_config_def)
  have fmt: "period_format ''2025-01''"
    by (simp add: is_digit_def)
  have m: "build_affiliateToPartner (partners example_db) \<noteq> []"
    by code_simp
  have full: "\<forall>q. 1 \<le> q \<and> q < 2 \<longrightarrow>
           broken_page q = Response True (Some (JArr (?pages q))) \<and> 50 \<le> length (?pages q)"
    by (auto simp: broken_page_def)
  have bad: "broken_page 2 = Response True (Some (JObj [(''error'', JStr ''oops'')]))"
    by (simp add: broken_page_def)
  have upt: "[1 ..< Suc 2] = [1, 2::nat]" "[1 ..< 2] = [1::nat]"
    by (simp_all add: upt_rec)
  have date: "''2025-01'' @ ''-01'' = ''2025-01-01''"
    by simp
  have "fetch_pages broken_page 1 [] =
           (map HttpGetPage [1 ..< Suc 2], Inr (concat (map ?pages [1 ..< 2]))) \<and>
        syncPartnerEarningsFromTapfiliate example_runtime example_config broken_page example_db
          ''2025-01'' =
           (case aggregate example_runtime example_config
                   (build_affiliateToPartner (partners example_db)) []
                   (concat (map ?pages [1 ..< 2])) of
              Inl e \<Rightarrow>
                ([DbEnsureTables, DbSelectPartners] @ map HttpGetPage [1 ..< Suc 2], example_db,
                 Inl e)
            | Inr bucket \<Rightarrow>
                (case upsert_buckets example_db (''2025-01'' @ ''-01'')
                        (GLOBAL_COMMISSION_RATE example_config) bucket of
                   (io2, db', r) \<Rightarrow>
                     ([DbEnsureTables, DbSelectPartners] @ map HttpGetPage [1 ..< Suc 2] @ io2,
                      db',
                      case r of
                        Inl e \<Rightarrow> Inl e
                      | Inr totals \<Rightarrow>
                          Inr \<lparr>s_period = ''2025-01'', s_totals = totals, s_note = None\<rparr>)))"
    using bad_page_ends_pagination_and_job_goes_on[where p = 2 and pages = ?pages
        and svc = broken_page and cfg = example_config and periodYm = "''2025-01''"
        and db = example_db and rt = example_runtime
        and body = "Some (JObj [(''error'', JStr ''oops'')])", OF cfg fmt m _ _ full bad]
    by simp
  then show ?thesis
    unfolding upt date
    by (simp add: broken_page_aggregate broken_page_upsert broken_page_def
          del: upsert_buckets.simps aggregate.simps)
qed

text \<open>
  The claim as stated fails when the page that is not JSON is the first one: no earlier
  page has delivered a conversion, and the job returns at the check for an empty
  conversion list, before the aggregation. Its summary carries the note, which a run of
  the aggregation and of the writes over no conversion would not produce.
\<close>

theorem first_page_not_json_counterexample:
  "first_page_not_json 1 = Response True None \<and>
   fetch_pages first_page_not_json 1 [] = ([HttpGetPage 1], Inr []) \<and>
   syncPartnerEarningsFromTapfiliate example_runtime example_config first_page_not_json
     example_db ''2025-01'' =
   ([DbEnsureTables, DbSelectPartners, HttpGetPage 1], example_db,
    Inr \<lparr>s_period = ''2025-01'', s_totals = [],
         s_note = Some ''No conversions found for this period.''\<rparr>) \<and>
   aggregate example_runtime example_config (build_affiliateToPartner (partners example_db))
     [] [] = Inr [] \<and>
   upsert_buckets example_db ''2025-01-01'' (GLOBAL_COMMISSION_RATE example_config) [] =
     ([], example_db, Inr []) \<and>
   snd (snd (syncPartnerEarningsFromTapfiliate example_runtime example_config
               first_page_not_json example_db ''2025-01'')) \<noteq>
   Inr \<lparr>s_period = ''2025-01'', s_totals = [], s_note = None\<rparr>"
  by code_simp

end
